theory Spec2Isabelle
  imports Complex_Main "HOL-Library.Sublist" "HOL-Library.Product_Lexorder"
    "HOL-Library.Word"
begin

section \<open>Python values shared by the models\<close>

text \<open>
  An exception object is its class name and its message; \<open>str(E)\<close> is the message.
\<close>

datatype py_exception = Exc (exc_class: string) (exc_msg: string)

definition str_exc :: "py_exception \<Rightarrow> string" where
  "str_exc e = exc_msg e"

section \<open>Structural integrity: \<open>SyntheticMDEvaluator.check_masses\<close>\<close>

text \<open>
  \<^verbatim>\<open>folding/rewards/evaluation_registry.py\<close>, lines 141-145:
  \<^verbatim>\<open>
    for i, (v_mass, m_mass) in enumerate(zip(validator_masses, miner_masses)):
        if v_mass != m_mass:
            logger.error(f"Masses for atom {i} do not match. ...")
            return False
    return True
  \<close>
  \<open>zip\<close> stops at the shorter sequence. The loop is a recursion over both lists that
  carries the counter of \<open>enumerate\<close>; its result is the index written to the error log
  (\<open>Some i\<close>, the function returns \<open>False\<close>) or \<open>None\<close> (it returns \<open>True\<close>).
  The two sequences \<open>validator_velm_data["pdb_masses"]\<close> and
  \<open>miner_velm_data["pdb_masses"]\<close> are the arguments; masses are compared with \<open>!=\<close>,
  which is equality of the values.
\<close>

fun check_masses_loop :: "nat \<Rightarrow> 'a list \<Rightarrow> 'a list \<Rightarrow> nat option" where
  "check_masses_loop i (v_mass # vs) (m_mass # ms) =
     (if v_mass \<noteq> m_mass then Some i else check_masses_loop (Suc i) vs ms)"
| "check_masses_loop i [] ms = None"
| "check_masses_loop i vs [] = None"

definition mismatch_logged :: "'a list \<Rightarrow> 'a list \<Rightarrow> nat option" where
  "mismatch_logged validator_masses miner_masses =
     check_masses_loop 0 validator_masses miner_masses"

definition check_masses :: "'a list \<Rightarrow> 'a list \<Rightarrow> bool" where
  "check_masses validator_masses miner_masses =
     (case mismatch_logged validator_masses miner_masses of
        Some i \<Rightarrow> False
      | None \<Rightarrow> True)"


section \<open>Machine numbers\<close>

text \<open>
  The evaluator reads the worker's log with \<open>pd.read_csv\<close>. The model covers the logs whose
  \<open>#"Step"\<close> column is read with dtype \<open>int64\<close> (every entry an integer literal in the signed
  64-bit range) and whose energy column is read with dtype \<open>float64\<close>.

  An \<open>np.int64\<close> is a 64-bit word; \<open>sint\<close> reads it as the signed number it stands for.
  Addition and subtraction of \<open>np.int64\<close> scalars wrap around (numpy warns and returns the
  wrapped value), and so does the word arithmetic. The step count of a simulation
  (\<open>simulation.currentStep\<close>) is a Python \<open>int\<close> that OpenMM keeps in a 64-bit signed
  integer; in arithmetic with an \<open>np.int64\<close> it is converted to \<open>np.int64\<close>. Comparisons are
  exact.
\<close>

type_synonym int64 = "64 word"

text \<open>
  Energies are IEEE binary64 numbers, and the evaluator computes on them with Python's
  float operators and with numpy. What these operations return (rounding, overflow to
  infinity, NaN, signed zeros, the order in which a reduction sums) is decided by numpy and
  the hardware, not by the evaluator. The model therefore takes the type \<open>'f\<close> of the
  binary64 values and the operations on it as parameters: a \<open>numpy\<close> record holds one
  function for each operation the evaluator calls.
  \<^item> \<open>np_float n\<close>: the float that the Python \<open>int\<close> literal \<open>n\<close> (10, 100) or the float
    literal \<open>0.0\<close> stands for;
  \<^item> \<open>np_subtract\<close>, \<open>np_divide\<close>, \<open>np_multiply\<close>, \<open>np_absolute\<close>: \<open>-\<close>, \<open>/\<close>, \<open>*\<close> and \<open>abs\<close> on two
    scalars, and on the elements of two arrays;
  \<^item> \<open>np_less_equal\<close>, \<open>np_greater\<close>: \<open><=\<close> and \<open>>\<close>;
  \<^item> \<open>np_diff\<close>, \<open>np_mean\<close>, \<open>np_median\<close>, \<open>np_unique\<close>: \<open>np.diff\<close>, \<open>ndarray.mean\<close>,
    \<open>np.median\<close> and \<open>np.unique\<close> on a one-dimensional array.

  Every theorem stated for an arbitrary \<open>np\<close> holds for the operations of the numpy that is
  installed.
\<close>

record 'f numpy =
  np_float :: "int \<Rightarrow> 'f"
  np_subtract :: "'f \<Rightarrow> 'f \<Rightarrow> 'f"
  np_divide :: "'f \<Rightarrow> 'f \<Rightarrow> 'f"
  np_multiply :: "'f \<Rightarrow> 'f \<Rightarrow> 'f"
  np_absolute :: "'f \<Rightarrow> 'f"
  np_less_equal :: "'f \<Rightarrow> 'f \<Rightarrow> bool"
  np_greater :: "'f \<Rightarrow> 'f \<Rightarrow> bool"
  np_diff :: "'f list \<Rightarrow> 'f list"
  np_mean :: "'f list \<Rightarrow> 'f"
  np_median :: "'f list \<Rightarrow> 'f"
  np_unique :: "'f list \<Rightarrow> 'f list"

text \<open>
  Binary operations on two one-dimensional arrays broadcast: equal lengths pair up
  position by position, an array of length one is repeated, and any other pair of
  lengths raises \<open>ValueError\<close> (whose message also names the two shapes).
\<close>

definition np_broadcast :: "'a list \<Rightarrow> 'b list \<Rightarrow> py_exception + ('a \<times> 'b) list" where
  "np_broadcast xs ys =
     (if length xs = length ys then Inr (zip xs ys)
      else if length xs = 1 then Inr (map (\<lambda>y. (hd xs, y)) ys)
      else if length ys = 1 then Inr (map (\<lambda>x. (x, hd ys)) xs)
      else Inl (Exc ''ValueError'' ''operands could not be broadcast together''))"

text \<open>Python slices \<open>xs[:n]\<close> and \<open>xs[-n:]\<close> (for positive \<open>n\<close>).\<close>

definition first_n :: "nat \<Rightarrow> 'a list \<Rightarrow> 'a list" where
  "first_n n xs = take n xs"

definition last_n :: "nat \<Rightarrow> 'a list \<Rightarrow> 'a list" where
  "last_n n xs = drop (length xs - n) xs"

subsection \<open>Exact arithmetic, for the example runs\<close>

text \<open>
  The example runs need operations that can be evaluated. \<open>exact_numpy\<close> computes on the
  reals extended by the two infinities and NaN, without rounding: it returns what binary64
  arithmetic returns wherever the binary64 result is exact. That is the case for every
  operation of the example runs, which work on integers of small magnitude and divide
  only where the quotient is an integer. (Zero has no sign here; the evaluator takes the
  absolute value of every quotient it forms.) Comparisons with NaN are \<open>False\<close>, the mean
  and the median of an empty array are NaN, and \<open>np.unique\<close> sorts and keeps one copy of
  each value.
\<close>

datatype npfloat = NegInf | Finite real | PosInf | NaN

fun ext_sub :: "npfloat \<Rightarrow> npfloat \<Rightarrow> npfloat" where
  "ext_sub NaN y = NaN"
| "ext_sub x NaN = NaN"
| "ext_sub (Finite a) (Finite b) = Finite (a - b)"
| "ext_sub (Finite a) PosInf = NegInf"
| "ext_sub (Finite a) NegInf = PosInf"
| "ext_sub PosInf PosInf = NaN"
| "ext_sub NegInf NegInf = NaN"
| "ext_sub PosInf y = PosInf"
| "ext_sub NegInf y = NegInf"

fun ext_add :: "npfloat \<Rightarrow> npfloat \<Rightarrow> npfloat" where
  "ext_add NaN y = NaN"
| "ext_add x NaN = NaN"
| "ext_add (Finite a) (Finite b) = Finite (a + b)"
| "ext_add PosInf NegInf = NaN"
| "ext_add NegInf PosInf = NaN"
| "ext_add PosInf y = PosInf"
| "ext_add NegInf y = NegInf"
| "ext_add (Finite a) y = y"

definition ext_sign_inf :: "bool \<Rightarrow> npfloat" where
  "ext_sign_inf positive = (if positive then PosInf else NegInf)"

fun ext_div :: "npfloat \<Rightarrow> npfloat \<Rightarrow> npfloat" where
  "ext_div NaN y = NaN"
| "ext_div x NaN = NaN"
| "ext_div (Finite a) (Finite b) =
     (if b = 0 then (if a = 0 then NaN else ext_sign_inf (0 < a)) else Finite (a / b))"
| "ext_div (Finite a) y = Finite 0"
| "ext_div PosInf (Finite b) = ext_sign_inf (0 \<le> b)"
| "ext_div NegInf (Finite b) = ext_sign_inf (b < 0)"
| "ext_div x y = NaN"

fun ext_mul :: "npfloat \<Rightarrow> npfloat \<Rightarrow> npfloat" where
  "ext_mul NaN y = NaN"
| "ext_mul x NaN = NaN"
| "ext_mul (Finite a) (Finite b) = Finite (a * b)"
| "ext_mul (Finite a) PosInf = (if a = 0 then NaN else ext_sign_inf (0 < a))"
| "ext_mul (Finite a) NegInf = (if a = 0 then NaN else ext_sign_inf (a < 0))"
| "ext_mul PosInf (Finite b) = (if b = 0 then NaN else ext_sign_inf (0 < b))"
| "ext_mul NegInf (Finite b) = (if b = 0 then NaN else ext_sign_inf (b < 0))"
| "ext_mul PosInf PosInf = PosInf"
| "ext_mul NegInf NegInf = PosInf"
| "ext_mul x y = NegInf"

fun ext_abs :: "npfloat \<Rightarrow> npfloat" where
  "ext_abs (Finite a) = Finite \<bar>a\<bar>"
| "ext_abs NegInf = PosInf"
| "ext_abs PosInf = PosInf"
| "ext_abs NaN = NaN"

text \<open>The order of the extended reals; NaN is never related.\<close>

fun ext_key :: "npfloat \<Rightarrow> int \<times> real" where
  "ext_key NegInf = (- 1, 0)"
| "ext_key (Finite a) = (0, a)"
| "ext_key PosInf = (1, 0)"
| "ext_key NaN = (2, 0)"

definition ext_gt :: "npfloat \<Rightarrow> npfloat \<Rightarrow> bool" where
  "ext_gt x y = (x \<noteq> NaN \<and> y \<noteq> NaN \<and> ext_key y < ext_key x)"

definition ext_le :: "npfloat \<Rightarrow> npfloat \<Rightarrow> bool" where
  "ext_le x y = (x \<noteq> NaN \<and> y \<noteq> NaN \<and> ext_key x \<le> ext_key y)"

fun ext_diff :: "npfloat list \<Rightarrow> npfloat list" where
  "ext_diff (a # b # xs) = ext_sub b a # ext_diff (b # xs)"
| "ext_diff xs = []"

definition ext_mean :: "npfloat list \<Rightarrow> npfloat" where
  "ext_mean xs =
     (if xs = [] then NaN
      else ext_div (foldl ext_add (Finite 0) xs) (Finite (real (length xs))))"

definition ext_median :: "npfloat list \<Rightarrow> npfloat" where
  "ext_median xs =
     (if xs = [] \<or> NaN \<in> set xs then NaN
      else let s = sort_key ext_key xs; n = length s
           in if odd n then s ! (n div 2)
              else ext_div (ext_add (s ! (n div 2 - 1)) (s ! (n div 2))) (Finite 2))"

definition ext_unique :: "npfloat list \<Rightarrow> npfloat list" where
  "ext_unique xs = remdups (sort_key ext_key xs)"

definition exact_numpy :: "npfloat numpy" where
  "exact_numpy =
     \<lparr>np_float = (\<lambda>n. Finite (of_int n)),
      np_subtract = ext_sub, np_divide = ext_div, np_multiply = ext_mul,
      np_absolute = ext_abs, np_less_equal = ext_le, np_greater = ext_gt,
      np_diff = ext_diff, np_mean = ext_mean, np_median = ext_median,
      np_unique = ext_unique\<rparr>"

section \<open>The evaluator's inputs\<close>

text \<open>
  \<^verbatim>\<open>folding.utils.constants\<close> is not among the sources: the constants the evaluator
  reads from it are parameters, the three counts Python \<open>int\<close>s and the two thresholds
  numbers that compare as floats.
\<close>

record 'f constants =
  MIN_LOGGING_ENTRIES :: int
  MIN_SIMULATION_STEPS :: int
  MAX_SIMULATION_STEPS_FOR_EVALUATION :: int
  XML_CHECKPOINT_THRESHOLD :: 'f
  ANOMALY_THRESHOLD :: 'f

text \<open>
  The evaluator calls the simulation adapter (\<open>self.md_simulator\<close>, a
  \<open>GenericSimulation\<close>) and the OpenMM objects it returns. What these calls answer
  is an input of the model, one field per group of calls; for a group that only has
  an effect, \<open>None\<close> says that it returns and \<open>Some e\<close> that it raises \<open>e\<close>:
  \<^item> \<open>construct_intake\<close>: lines 59-63, \<open>load_pdb_file\<close>, \<open>get_config\<close> and
    \<open>create_simulation\<close>;
  \<^item> \<open>save_state\<close>: lines 105-114, \<open>saveState\<close> and \<open>write_pkl\<close>;
  \<^item> \<open>miner_masses\<close>: \<open>create_velm(simulation)["pdb_masses"]\<close>;
  \<^item> \<open>construct_state\<close>: lines 196-206, the second \<open>create_simulation\<close>, \<open>loadState\<close>
    and the stepping of the replay from the saved state;
  \<^item> \<open>state_energy k\<close>: the potential energy read after block \<open>k\<close> of ten steps of that
    replay (line 205), counting from 0;
  \<^item> \<open>construct_cpt\<close>: lines 216-243, the third \<open>create_simulation\<close>, \<open>loadCheckpoint\<close>,
    the stepping of the replay from the checkpoint and the reading of its log;
  \<^item> \<open>check_energies\<close>: the energy column of \<open>check_<state>.log\<close>, which the reporter
    writes during that replay;
  \<^item> \<open>save_pdb\<close>: lines 267-274, writing the folded structure.

  The model of the evaluator is the same for every adapter; the adapter of the repository
  is modelled in its own section.
\<close>

record 'f engine =
  construct_intake :: "py_exception option"
  save_state :: "py_exception option"
  miner_masses :: "real list"
  construct_state :: "py_exception option"
  state_energy :: "nat \<Rightarrow> 'f"
  construct_cpt :: "py_exception option"
  check_energies :: "'f list"
  save_pdb :: "py_exception option"

text \<open>
  The \<open>data\<close> dictionary of \<open>_evaluate\<close> and what the files it names hold:
  \<^item> \<open>md_output\<close>: file name and content of each submitted file, in dictionary order;
  \<^item> \<open>save_files\<close>: line 48, writing the files to the miner's directory (\<open>Some e\<close>: it
    raises \<open>e\<close>);
  \<^item> \<open>load_cpt\<close>: \<open>loadCheckpoint\<close> of \<open><state>.cpt\<close>, giving the simulation's
    \<open>currentStep\<close>, or the exception it raises;
  \<^item> \<open>read_log\<close>: \<open>pd.read_csv\<close> of the log and the lookup of its \<open>#"Step"\<close> column
    (\<open>Some e\<close>: one of them raises \<open>e\<close>);
  \<^item> \<open>log_file\<close>: the rows of the log, each the columns \<open>#"Step"\<close> and
    \<open>Potential Energy (kJ/mole)\<close>;
  \<^item> \<open>load_old_cpt\<close>: as \<open>load_cpt\<close>, for \<open><state>_old.cpt\<close>; \<open>None\<close> when that file does
    not exist;
  \<^item> \<open>load_masses\<close>: \<open>load_pkl\<close>, \<open>create_velm\<close> and the two lookups of \<open>"pdb_masses"\<close>,
    lines 135-139 (\<open>Some e\<close>: one of them raises \<open>e\<close>);
  \<^item> \<open>validator_masses\<close>: \<open>pdb_masses\<close> of the pickle at \<open>velm_array_location\<close>.
\<close>

record 'f data =
  md_output :: "(string \<times> string) list"
  save_files :: "py_exception option"
  load_cpt :: "py_exception + int64"
  read_log :: "py_exception option"
  log_file :: "(int64 \<times> 'f) list"
  load_old_cpt :: "(py_exception + int64) option"
  load_masses :: "py_exception option"
  validator_masses :: "real list"

section \<open>\<open>SyntheticMDEvaluator.process_md_output\<close>\<close>

text \<open>\<open>k.split(".")[-1]\<close>: what follows the last dot, the whole name if it has none.\<close>

definition file_ext :: "string \<Rightarrow> string" where
  "file_ext k = rev (takeWhile (\<lambda>ch. ch \<noteq> CHR ''.'') (rev k))"

text \<open>
  Line 34: \<open>{k.split(".")[-1]: k for k, v in md_output.items() if len(v) > 0}\<close>;
  a later file with the same extension replaces an earlier one.
\<close>

definition md_outputs_exts :: "(string \<times> string) list \<Rightarrow> string \<rightharpoonup> string" where
  "md_outputs_exts files =
     map_of (rev (map (\<lambda>(k, v). (file_ext k, k)) (filter (\<lambda>(k, v). 0 < length v) files)))"

text \<open>
  The method returns a boolean and leaves its findings in attributes and in the log, or
  it is left by an exception. The model's result says which: \<open>Intake_raised e\<close> when \<open>e\<close>
  leaves the method, \<open>Intake_false\<close> with the message logged when it returns \<open>False\<close>,
  and \<open>Intake_true\<close> with the attributes the later stages read when it returns \<open>True\<close>.
  The three \<open>ValidationError\<close>s are named by the line that raises them.
\<close>

datatype validation_error =
    Not_enough_log_entries
  | Old_checkpoint_not_enough_steps
  | No_old_checkpoint

datatype intake_log =
    Empty_md_output
  | Missing_extension string
  | Validation_warning validation_error
  | Recreate_error py_exception

record prepared =
  log_step :: int64
  cpt_step :: int64
  used_old_checkpoint :: bool

datatype intake = Intake_raised py_exception | Intake_false intake_log | Intake_true prepared

text \<open>
  Lines 100-114, after the checks: the attributes are set, then the state and the
  configuration are written; an exception there is caught by \<open>except Exception\<close>.
\<close>

definition save_attributes :: "'f engine \<Rightarrow> prepared \<Rightarrow> intake_log + prepared" where
  "save_attributes eng p =
     (case save_state eng of
        Some e \<Rightarrow> Inl (Recreate_error e)
      | None \<Rightarrow> Inr p)"

text \<open>
  The \<open>try\<close> statement, lines 53-122. The lag of lines 82 and 91 is
  \<open>self.log_step - self.simulation.currentStep\<close>, an \<open>np.int64\<close> minus an \<open>int\<close>: it wraps
  around.
\<close>

definition process_md_output_try ::
  "'f constants \<Rightarrow> 'f engine \<Rightarrow> 'f data \<Rightarrow> intake_log + prepared" where
  "process_md_output_try c eng d =
     (case construct_intake eng of
        Some e \<Rightarrow> Inl (Recreate_error e)
      | None \<Rightarrow>
        (case load_cpt d of
           Inl e \<Rightarrow> Inl (Recreate_error e)
         | Inr current_step \<Rightarrow>
           (case read_log d of
              Some e \<Rightarrow> Inl (Recreate_error e)
            | None \<Rightarrow>
              if log_file d = []
              then Inl (Recreate_error
                     (Exc ''IndexError'' ''single positional indexer is out-of-bounds''))
              else
                let step = fst (last (log_file d)) in
                if int (length (log_file d)) < MIN_LOGGING_ENTRIES c
                then Inl (Validation_warning Not_enough_log_entries)
                else if sint (step - current_step) < MIN_SIMULATION_STEPS c
                then (case load_old_cpt d of
                        None \<Rightarrow> Inl (Validation_warning No_old_checkpoint)
                      | Some (Inl e) \<Rightarrow> Inl (Recreate_error e)
                      | Some (Inr old_step) \<Rightarrow>
                          if sint (step - old_step) < MIN_SIMULATION_STEPS c
                          then Inl (Validation_warning Old_checkpoint_not_enough_steps)
                          else save_attributes eng
                                 \<lparr>log_step = step, cpt_step = old_step,
                                  used_old_checkpoint = True\<rparr>)
                else save_attributes eng
                       \<lparr>log_step = step, cpt_step = current_step,
                        used_old_checkpoint = False\<rparr>)))"

text \<open>The whole method, lines 24-124; \<open>save_files\<close> is called before the \<open>try\<close>.\<close>

definition process_md_output :: "'f constants \<Rightarrow> 'f engine \<Rightarrow> 'f data \<Rightarrow> intake" where
  "process_md_output c eng d =
     (if length (md_output d) = 0 then Intake_false Empty_md_output
      else if md_outputs_exts (md_output d) ''cpt'' = None
      then Intake_false (Missing_extension ''cpt'')
      else if md_outputs_exts (md_output d) ''log'' = None
      then Intake_false (Missing_extension ''log'')
      else
        (case save_files d of
           Some e \<Rightarrow> Intake_raised e
         | None \<Rightarrow>
             (case process_md_output_try c eng d of
                Inl logged \<Rightarrow> Intake_false logged
              | Inr p \<Rightarrow> Intake_true p)))"

section \<open>The replay checks\<close>

text \<open>
  \<open>check_gradient\<close>, lines 152-156:
  \<open>np.diff(check_energies[:WINDOW]).mean().item() <= GRADIENT_THRESHOLD\<close>.
\<close>

definition WINDOW :: nat where
  "WINDOW = 50"

definition GRADIENT_THRESHOLD :: int where
  "GRADIENT_THRESHOLD = 10"

definition check_gradient :: "'f numpy \<Rightarrow> 'f list \<Rightarrow> bool" where
  "check_gradient np energies =
     (let mean_gradient = np_mean np (np_diff np (first_n WINDOW energies))
      in np_less_equal np mean_gradient (np_float np GRADIENT_THRESHOLD))"

text \<open>
  \<open>compare_state_to_cpt\<close>, lines 164-176:
  \<open>percent_diff = abs((state_median - checkpoint_median) / checkpoint_median) * 100\<close>.
\<close>

definition compare_state_to_cpt ::
  "'f numpy \<Rightarrow> 'f constants \<Rightarrow> 'f list \<Rightarrow> 'f list \<Rightarrow> bool" where
  "compare_state_to_cpt np c state_energies checkpoint_energies =
     (let state_median = np_median np (first_n WINDOW state_energies);
          checkpoint_median = np_median np (first_n WINDOW checkpoint_energies);
          percent_diff =
            np_multiply np
              (np_absolute np
                 (np_divide np (np_subtract np state_median checkpoint_median)
                    checkpoint_median))
              (np_float np 100)
      in if np_greater np percent_diff (XML_CHECKPOINT_THRESHOLD c) then False else True)"

text \<open>
  Line 260: \<open>abs(((check_energies - miner_energies) / miner_energies) * 100)\<close>, on two
  arrays: position by position after broadcasting.
\<close>

definition percent_diff_at :: "'f numpy \<Rightarrow> 'f \<times> 'f \<Rightarrow> 'f" where
  "percent_diff_at np = (\<lambda>(check, miner).
     np_absolute np
       (np_multiply np (np_divide np (np_subtract np check miner) miner) (np_float np 100)))"

definition percent_diff_array :: "'f numpy \<Rightarrow> 'f list \<Rightarrow> 'f list \<Rightarrow> py_exception + 'f list" where
  "percent_diff_array np checks miners =
     (case np_broadcast checks miners of
        Inl e \<Rightarrow> Inl e
      | Inr pairs \<Rightarrow> Inr (map (percent_diff_at np) pairs))"

section \<open>\<open>SyntheticMDEvaluator.is_run_valid\<close>\<close>

text \<open>
  What a \<open>raise\<close> statement is given. The source writes \<open>raise "state-gradient"\<close>: the
  operand is a \<open>str\<close>, not an exception, and Python 3 then raises
  \<open>TypeError("exceptions must derive from BaseException")\<close> in its place.
\<close>

datatype raise_operand = Raise_str string | Raise_exc py_exception

fun raise_stmt :: "raise_operand \<Rightarrow> py_exception" where
  "raise_stmt (Raise_str s) = Exc ''TypeError'' ''exceptions must derive from BaseException''"
| "raise_stmt (Raise_exc e) = e"

text \<open>
  Line 192: \<open>min(c.MAX_SIMULATION_STEPS_FOR_EVALUATION, self.log_step - self.cpt_step)\<close>. The
  difference is an \<open>np.int64\<close> and wraps around; \<open>min\<close> returns the constant, a Python
  \<open>int\<close>, unless the difference is smaller.
\<close>

definition steps_to_run :: "'f constants \<Rightarrow> prepared \<Rightarrow> int" where
  "steps_to_run c p =
     min (MAX_SIMULATION_STEPS_FOR_EVALUATION c) (sint (log_step p - cpt_step p))"

text \<open>
  Lines 202-206: one sample per block of ten steps, \<open>steps_to_run // 10\<close> blocks (none
  when that is negative).
\<close>

definition state_replay :: "'f constants \<Rightarrow> 'f engine \<Rightarrow> prepared \<Rightarrow> 'f list" where
  "state_replay c eng p = map (state_energy eng) [0 ..< nat (steps_to_run c p div 10)]"

text \<open>
  Line 235: \<open>max_step = self.cpt_step + steps_to_run\<close>. When \<open>steps_to_run\<close> is the
  difference, the sum is an \<open>np.int64\<close> and wraps around; when it is the constant, both
  are Python \<open>int\<close>s and the sum is exact.
\<close>

definition max_step :: "'f constants \<Rightarrow> prepared \<Rightarrow> int" where
  "max_step c p =
     (if sint (log_step p - cpt_step p) < MAX_SIMULATION_STEPS_FOR_EVALUATION c
      then sint (cpt_step p + (log_step p - cpt_step p))
      else sint (cpt_step p) + MAX_SIMULATION_STEPS_FOR_EVALUATION c)"

text \<open>Lines 236-238: the worker's energies at the steps the replay covers.\<close>

definition miner_energies_of :: "'f constants \<Rightarrow> 'f data \<Rightarrow> prepared \<Rightarrow> 'f list" where
  "miner_energies_of c d p =
     map snd (filter (\<lambda>(step, energy). sint (cpt_step p) < sint step \<and> sint step \<le> max_step c p)
                (log_file d))"

text \<open>
  The body of the \<open>try\<close> block, lines 209-276: \<open>Inl\<close> of what is raised, or \<open>Inr\<close> of the
  two trajectories returned with \<open>True\<close>.
\<close>

definition is_run_valid_try ::
  "'f numpy \<Rightarrow> 'f constants \<Rightarrow> 'f engine \<Rightarrow> 'f data \<Rightarrow> prepared \<Rightarrow> 'f list
     \<Rightarrow> raise_operand + ('f list \<times> 'f list)" where
  "is_run_valid_try np c eng d p state_energies =
     (if \<not> check_gradient np state_energies then Inl (Raise_str ''state-gradient'')
      else
        (case construct_cpt eng of
           Some e \<Rightarrow> Inl (Raise_exc e)
         | None \<Rightarrow>
             let miner_energies = miner_energies_of c d p;
                 checks = check_energies eng
             in if length (np_unique np checks) = 1
                then Inl (Raise_str ''reprod-energies-identical'')
                else if \<not> check_gradient np checks then Inl (Raise_str ''cpt-gradient'')
                else if \<not> compare_state_to_cpt np c state_energies checks
                     then Inl (Raise_str ''state-checkpoint'')
                else
                  (case percent_diff_array np checks miner_energies of
                     Inl e \<Rightarrow> Inl (Raise_exc e)
                   | Inr percent_diffs \<Rightarrow>
                       if np_greater np (np_median np percent_diffs) (ANOMALY_THRESHOLD c)
                       then Inl (Raise_str ''anomaly'')
                       else
                         (case save_pdb eng of
                            Some e \<Rightarrow> Inl (Raise_exc e)
                          | None \<Rightarrow> Inr (checks, miner_energies)))))"

text \<open>
  The whole method. The first reconstruction and the state replay (lines 196-206) are
  outside the \<open>try\<close>: an exception there leaves the method (\<open>Inl\<close>). Inside,
  \<open>except Exception as E: return False, [], [], str(E)\<close>.
\<close>

type_synonym 'f outcome = "bool \<times> 'f list \<times> 'f list \<times> string"

definition is_run_valid ::
  "'f numpy \<Rightarrow> 'f constants \<Rightarrow> 'f engine \<Rightarrow> 'f data \<Rightarrow> prepared \<Rightarrow> py_exception + 'f outcome" where
  "is_run_valid np c eng d p =
     (case construct_state eng of
        Some e \<Rightarrow> Inl e
      | None \<Rightarrow>
          (case is_run_valid_try np c eng d p (state_replay c eng p) of
             Inl raised \<Rightarrow> Inr (False, [], [], str_exc (raise_stmt raised))
           | Inr (checks, miner_energies) \<Rightarrow> Inr (True, checks, miner_energies, ''valid'')))"

section \<open>\<open>SyntheticMDEvaluator._evaluate\<close>\<close>

text \<open>
  Lines 281-296. Nothing in \<open>_evaluate\<close> catches an exception: one that leaves
  \<open>process_md_output\<close>, \<open>check_masses\<close> or \<open>is_run_valid\<close> leaves \<open>_evaluate\<close>.
  \<open>self.log_file['#"Step"'][1]\<close> looks up row label 1 and raises \<open>KeyError\<close> on a log of
  fewer than two rows. The stride of line 289 is the difference of two \<open>np.int64\<close> and
  wraps around. The result is \<open>Inl\<close> of the exception that leaves the method, or \<open>Inr\<close> of
  the score.
\<close>

definition md_evaluate ::
  "'f numpy \<Rightarrow> 'f constants \<Rightarrow> 'f engine \<Rightarrow> 'f data \<Rightarrow> py_exception + 'f" where
  "md_evaluate np c eng d =
     (case process_md_output c eng d of
        Intake_raised e \<Rightarrow> Inl e
      | Intake_false logged \<Rightarrow> Inr (np_float np 0)
      | Intake_true p \<Rightarrow>
          (case load_masses d of
             Some e \<Rightarrow> Inl e
           | None \<Rightarrow>
               if \<not> check_masses (validator_masses d) (miner_masses eng)
               then Inr (np_float np 0)
               else if length (log_file d) < 2 then Inl (Exc ''KeyError'' ''1'')
               else if sint (fst (log_file d ! 1) - fst (log_file d ! 0)) > 10
               then Inr (np_float np 0)
               else
                 (case is_run_valid np c eng d p of
                    Inl e \<Rightarrow> Inl e
                  | Inr (is_valid, checked_energies, miner_energies, result) \<Rightarrow>
                      if \<not> is_valid then Inr (np_float np 0)
                      else Inr (np_median np (last_n 10 checked_energies)))))"

section \<open>\<open>OpenMMSimulation.create_simulation\<close>\<close>

text \<open>
  \<^verbatim>\<open>folding/base/simulation.py\<close>, lines 70-195. \<open>system_config\<close> is a Python
  dictionary from field names to values; the function updates it in place, so the model
  returns, next to the result, the dictionary as the call leaves it. A value is a
  string, an integer, a float, a dictionary, or any other object (\<open>None\<close>, a list, an
  OpenMM constant), of which only \<open>str(v)\<close> is kept.
\<close>

datatype cfg_value =
    VStr string
  | VInt int
  | VFloat real
  | VDict "(string \<times> cfg_value) list"
  | VOther string

type_synonym system_config = "string \<rightharpoonup> cfg_value"

text \<open>\<open>isinstance(v, (str, int, float, dict))\<close> and \<open>str(v)\<close> for the values that fail it.\<close>

fun is_plain :: "cfg_value \<Rightarrow> bool" where
  "is_plain (VOther s) = False"
| "is_plain v = True"

fun str_value :: "cfg_value \<Rightarrow> cfg_value" where
  "str_value (VOther s) = VStr s"
| "str_value v = v"

text \<open>\<open>system_config[key]\<close> raises \<open>KeyError\<close> on a missing key.\<close>

definition getitem_raises :: "system_config \<Rightarrow> string \<Rightarrow> py_exception option" where
  "getitem_raises cfg key = (if cfg key = None then Some (Exc ''KeyError'' key) else None)"

text \<open>The number a value compares as in \<open>system_config["cutoff"] > threshold\<close>.\<close>

fun as_number :: "cfg_value \<Rightarrow> real option" where
  "as_number (VInt n) = Some (real_of_int n)"
| "as_number (VFloat x) = Some x"
| "as_number v = None"

text \<open>
  The calls into OpenMM and torch are inputs: for each group of calls whether it raises,
  and for the two that return a value the function reads, that value.
\<close>

record openmm =
  forcefield_modeller :: "py_exception option"
  add_solvent :: "py_exception option"
  unit_cell_min :: "py_exception + real"
  create_system :: "py_exception option"
  langevin_integrator :: "py_exception option"
  cuda_platform :: "py_exception option"
  idle_gpus :: "py_exception + nat list"
  simulation_context :: "py_exception option"

text \<open>Statements that change nothing and may raise: the first that raises decides.\<close>

fun first_raised :: "py_exception option list \<Rightarrow> py_exception option" where
  "first_raised [] = None"
| "first_raised (None # rs) = first_raised rs"
| "first_raised (Some e # rs) = Some e"

text \<open>
  Lines 113-124: \<open>threshold\<close> is half the smallest box dimension; a larger cutoff is
  replaced by it in the dictionary.
\<close>

definition cap_cutoff :: "openmm \<Rightarrow> system_config \<Rightarrow> py_exception + system_config" where
  "cap_cutoff env cfg =
     (case unit_cell_min env of
        Inl e \<Rightarrow> Inl e
      | Inr smallest \<Rightarrow>
          let threshold = smallest / 2 in
          (case cfg ''cutoff'' of
             None \<Rightarrow> Inl (Exc ''KeyError'' ''cutoff'')
           | Some v \<Rightarrow>
               (case as_number v of
                  None \<Rightarrow> Inl (Exc ''TypeError'' ''> not supported between these instances'')
                | Some cutoff \<Rightarrow>
                    if cutoff > threshold then Inr (cfg(''cutoff'' \<mapsto> VFloat threshold))
                    else Inr cfg)))"

text \<open>\<open>first_number\<close>, lines 40-41: \<open>arr[0] if arr else -1\<close>.\<close>

definition first_number :: "nat list \<Rightarrow> int" where
  "first_number arr = (if arr \<noteq> [] then int (hd arr) else - 1)"

text \<open>
  Lines 158-164. The function assigns \<open>static_id\<close> (lines 161-162), which makes the name
  local to it, so reading it at line 160 raises \<open>UnboundLocalError\<close>. Line 164 calls
  \<open>logging.info\<close>, and the module binds no name \<open>logging\<close> (it imports \<open>logger\<close>):
  \<open>NameError\<close>. Neither branch hands a device index on.
\<close>

definition select_device :: "nat list \<Rightarrow> py_exception + int" where
  "select_device idle =
     (let deviceIndex = first_number idle in
      if deviceIndex = - 1
      then Inl (Exc ''UnboundLocalError'' ''local variable static_id referenced before assignment'')
      else Inl (Exc ''NameError'' ''name logging is not defined''))"

text \<open>
  Lines 187-189: every value that is not a \<open>str\<close>, \<open>int\<close>, \<open>float\<close> or \<open>dict\<close> is
  replaced by its string.
\<close>

definition stringify_config :: "system_config \<Rightarrow> system_config" where
  "stringify_config cfg = (\<lambda>k. map_option (\<lambda>v. if \<not> is_plain v then str_value v else v) (cfg k))"

text \<open>
  The whole function: the result (\<open>Inl\<close> an exception, \<open>Inr\<close> the configuration
  returned) and the caller's dictionary after the call. \<open>seed\<close> is \<open>None\<close> when the
  caller passes none.
\<close>

definition create_simulation ::
  "openmm \<Rightarrow> system_config \<Rightarrow> int option \<Rightarrow> (py_exception + system_config) \<times> system_config" where
  "create_simulation env cfg seed =
     (case first_raised
             [getitem_raises cfg ''ff'', getitem_raises cfg ''water'', forcefield_modeller env,
              getitem_raises cfg ''box_padding'', getitem_raises cfg ''box'', add_solvent env] of
        Some e \<Rightarrow> (Inl e, cfg)
      | None \<Rightarrow>
        (case cap_cutoff env cfg of
           Inl e \<Rightarrow> (Inl e, cfg)
         | Inr cfg1 \<Rightarrow>
           (case first_raised
                   [getitem_raises cfg1 ''constraints'', create_system env,
                    getitem_raises cfg1 ''temperature'', getitem_raises cfg1 ''friction'',
                    getitem_raises cfg1 ''time_step_size'', langevin_integrator env,
                    (if seed = None then getitem_raises cfg1 ''seed'' else None),
                    cuda_platform env] of
              Some e \<Rightarrow> (Inl e, cfg1)
            | None \<Rightarrow>
              (case idle_gpus env of
                 Inl e \<Rightarrow> (Inl e, cfg1)
               | Inr idle \<Rightarrow>
                 (case select_device idle of
                    Inl e \<Rightarrow> (Inl e, cfg1)
                  | Inr deviceIndex \<Rightarrow>
                    (case simulation_context env of
                       Some e \<Rightarrow> (Inl e, cfg1)
                     | None \<Rightarrow>
                         let cfg2 = stringify_config cfg1 in (Inr cfg2, cfg2)))))))"


section \<open>Outcomes of a whole pass\<close>

text \<open>
  \<open>_evaluate\<close> runs four stages in this order: the intake (\<open>process_md_output\<close>), the
  mass check, the resolution check on the log, and the replay (\<open>is_run_valid\<close>). A
  submission passes every stage when each of them returns and lets it through.
\<close>

definition passes_every_stage ::
  "'f numpy \<Rightarrow> 'f constants \<Rightarrow> 'f engine \<Rightarrow> 'f data \<Rightarrow> bool" where
  "passes_every_stage np c eng d =
     (case process_md_output c eng d of
        Intake_raised e \<Rightarrow> False
      | Intake_false logged \<Rightarrow> False
      | Intake_true p \<Rightarrow>
          load_masses d = None \<and>
          check_masses (validator_masses d) (miner_masses eng) \<and>
          2 \<le> length (log_file d) \<and>
          sint (fst (log_file d ! 1) - fst (log_file d ! 0)) \<le> 10 \<and>
          (case is_run_valid np c eng d p of
             Inl e \<Rightarrow> False
           | Inr (is_valid, checked_energies, miner_energies, result) \<Rightarrow> is_valid))"

text \<open>
  A stage rejects the submission when the stages before it let it through and it returns
  its refusal: \<open>process_md_output\<close> or \<open>check_masses\<close> returns \<open>False\<close>, the first two log
  rows are more than 10 steps apart, or \<open>is_run_valid\<close> returns an invalid outcome.
\<close>

definition rejected_by_a_stage ::
  "'f numpy \<Rightarrow> 'f constants \<Rightarrow> 'f engine \<Rightarrow> 'f data \<Rightarrow> bool" where
  "rejected_by_a_stage np c eng d =
     (case process_md_output c eng d of
        Intake_raised e \<Rightarrow> False
      | Intake_false logged \<Rightarrow> True
      | Intake_true p \<Rightarrow>
          load_masses d = None \<and>
          (if \<not> check_masses (validator_masses d) (miner_masses eng) then True
           else 2 \<le> length (log_file d) \<and>
             (if 10 < sint (fst (log_file d ! 1) - fst (log_file d ! 0)) then True
              else (case is_run_valid np c eng d p of
                      Inl e \<Rightarrow> False
                    | Inr (is_valid, checked_energies, miner_energies, result) \<Rightarrow>
                        \<not> is_valid))))"

text \<open>The two rejections of the checkpoint-freshness gate (lines 92 and 96).\<close>

fun insufficient_progress :: "intake_log \<Rightarrow> bool" where
  "insufficient_progress (Validation_warning No_old_checkpoint) = True"
| "insufficient_progress (Validation_warning Old_checkpoint_not_enough_steps) = True"
| "insufficient_progress logged = False"

section \<open>Example runs\<close>

text \<open>
  Constants as in the scenarios of the specification (a lag of at least 50 steps, a
  tolerance of 5 percent), small enough to evaluate a whole run.
\<close>

definition example_constants :: "npfloat constants" where
  "example_constants =
     \<lparr>MIN_LOGGING_ENTRIES = 5, MIN_SIMULATION_STEPS = 50,
      MAX_SIMULATION_STEPS_FOR_EVALUATION = 5000,
      XML_CHECKPOINT_THRESHOLD = Finite 5, ANOMALY_THRESHOLD = Finite 5\<rparr>"

text \<open>Three energy trajectories: one that settles, one that does not move, one that climbs.\<close>

definition falling_energies :: "npfloat list" where
  "falling_energies =
     [Finite (- 1001), Finite (- 1002), Finite (- 1003), Finite (- 1004), Finite (- 1005)]"

definition constant_energies :: "npfloat list" where
  "constant_energies =
     [Finite (- 1000), Finite (- 1000), Finite (- 1000), Finite (- 1000), Finite (- 1000)]"

definition rising_energies :: "npfloat list" where
  "rising_energies = [Finite 0, Finite 100, Finite 200, Finite 300, Finite 400]"

text \<open>
  A worker that ran the simulation it was asked to run: a checkpoint at step 100,
  a log sampled every 10 steps up to step 150, and a replay that reproduces it.
\<close>

definition honest_data :: "npfloat data" where
  "honest_data =
     \<lparr>md_output = [(''md_0_1.cpt'', ''checkpoint''), (''md_0_1.log'', ''log'')],
      save_files = None,
      load_cpt = Inr 100,
      read_log = None,
      log_file = [(100, Finite (- 1000)), (110, Finite (- 1001)), (120, Finite (- 1002)),
                  (130, Finite (- 1003)), (140, Finite (- 1004)), (150, Finite (- 1005))],
      load_old_cpt = None,
      load_masses = None,
      validator_masses = [12, 1, 16]\<rparr>"

definition honest_engine :: "npfloat engine" where
  "honest_engine =
     \<lparr>construct_intake = None,
      save_state = None,
      miner_masses = [12, 1, 16],
      construct_state = None,
      state_energy = (\<lambda>k. Finite (- 1001 - real k)),
      construct_cpt = None,
      check_energies = falling_energies,
      save_pdb = None\<rparr>"

definition honest_prepared :: prepared where
  "honest_prepared = \<lparr>log_step = 150, cpt_step = 100, used_old_checkpoint = False\<rparr>"

text \<open>The same run with a log that jumps from step 10 to step 100 before the checkpoint.\<close>

definition gap_data :: "npfloat data" where
  "gap_data = honest_data
     \<lparr>log_file := [(0, Finite (- 990)), (10, Finite (- 995)), (100, Finite (- 1000)),
                   (110, Finite (- 1001)), (120, Finite (- 1002)), (130, Finite (- 1003)),
                   (140, Finite (- 1004)), (150, Finite (- 1005))]\<rparr>"

text \<open>The same run with a log whose first two rows are 20 steps apart.\<close>

definition coarse_data :: "npfloat data" where
  "coarse_data = honest_data
     \<lparr>log_file := [(80, Finite (- 999)), (100, Finite (- 1000)), (110, Finite (- 1001)),
                   (120, Finite (- 1002)), (130, Finite (- 1003)), (140, Finite (- 1004)),
                   (150, Finite (- 1005))]\<rparr>"

text \<open>A state replay whose energy climbs by 100 per sample.\<close>

definition steep_engine :: "npfloat engine" where
  "steep_engine = honest_engine \<lparr>state_energy := (\<lambda>k. Finite (100 * real k))\<rparr>"

text \<open>A checkpoint replay that reports the same energy at every sample.\<close>

definition frozen_engine :: "npfloat engine" where
  "frozen_engine = honest_engine \<lparr>check_energies := constant_energies\<rparr>"

text \<open>An adapter that cannot build the simulation for the state replay.\<close>

definition no_device :: py_exception where
  "no_device = Exc ''OpenMMException'' ''No compatible CUDA device is available''"

definition failing_engine :: "npfloat engine" where
  "failing_engine = honest_engine \<lparr>construct_state := Some no_device\<rparr>"

text \<open>
  The scenarios of the freshness gate: a log that ends at step 1000, with a checkpoint
  at step 980 and no older one, and with a checkpoint at step 900.
\<close>

definition late_checkpoint_data :: "npfloat data" where
  "late_checkpoint_data = honest_data
     \<lparr>log_file := [(960, Finite (- 1000)), (970, Finite (- 1001)), (980, Finite (- 1002)),
                   (990, Finite (- 1003)), (1000, Finite (- 1004))],
      load_cpt := Inr 980, load_old_cpt := None\<rparr>"

definition early_checkpoint_data :: "npfloat data" where
  "early_checkpoint_data = late_checkpoint_data \<lparr>load_cpt := Inr 900\<rparr>"

text \<open>
  A log whose last row carries the smallest 64-bit step, \<open>- 2 ^ 63\<close>, with the checkpoint
  at step 980 and no older one.
\<close>

definition wrapped_lag_data :: "npfloat data" where
  "wrapped_lag_data = honest_data
     \<lparr>log_file := [(0, Finite (- 1000)), (10, Finite (- 1001)), (20, Finite (- 1002)),
                   (30, Finite (- 1003)), (- 9223372036854775808, Finite (- 1004))],
      load_cpt := Inr 980, load_old_cpt := None\<rparr>"



section \<open>Properties of the mass check\<close>

lemma check_masses_loop_ge:
  "check_masses_loop i vs ms = Some k \<Longrightarrow> i \<le> k"
proof (induction i vs ms rule: check_masses_loop.induct)
  case (1 i v_mass vs m_mass ms)
  then show ?case by (cases "v_mass = m_mass") auto
qed simp_all

lemma check_masses_loop_Some:
  "check_masses_loop i vs ms = Some (i + d) \<longleftrightarrow>
     d < length vs \<and> d < length ms \<and> vs ! d \<noteq> ms ! d \<and> (\<forall>j < d. vs ! j = ms ! j)"
proof (induction i vs ms arbitrary: d rule: check_masses_loop.induct)
  case (1 i v_mass vs m_mass ms)
  show ?case
  proof (cases "v_mass = m_mass")
    case False
    then show ?thesis by (cases d) auto
  next
    case True
    show ?thesis
    proof (cases d)
      case 0
      have "check_masses_loop (Suc i) vs ms \<noteq> Some i"
        using check_masses_loop_ge [of "Suc i" vs ms i] by auto
      with True 0 show ?thesis by simp
    next
      case (Suc d')
      have "(\<forall>j < Suc d'. (v_mass # vs) ! j = (m_mass # ms) ! j) \<longleftrightarrow>
            (\<forall>j < d'. vs ! j = ms ! j)"
        using True by (auto simp: less_Suc_eq_0_disj)
      with 1 [OF _, of d'] True Suc show ?thesis by simp
    qed
  qed
qed simp_all

lemma check_masses_loop_prefix:
  "prefix vs ms \<or> prefix ms vs \<Longrightarrow> check_masses_loop i vs ms = None"
proof (induction i vs ms rule: check_masses_loop.induct)
  case (1 i v_mass vs m_mass ms)
  then show ?case by auto
qed simp_all

text \<open>
  C7. The mass check compares the two sequences position by position, in order, with
  plain equality: it returns \<open>False\<close> exactly when some shared position differs, and the
  index it reports is the first such position. Hence a claimed sequence that is the
  reference sequence with exactly one value altered, at index \<open>k\<close>, is rejected and index
  \<open>k\<close> is the one reported.
\<close>

theorem check_masses_first_mismatch:
  "(mismatch_logged vs ms = Some i \<longleftrightarrow>
      i < length vs \<and> i < length ms \<and> vs ! i \<noteq> ms ! i \<and> (\<forall>j < i. vs ! j = ms ! j))
   \<and> (check_masses vs ms \<longleftrightarrow> mismatch_logged vs ms = None)
   \<and> (k < length vs \<and> x \<noteq> vs ! k \<longrightarrow>
        mismatch_logged vs (vs[k := x]) = Some k \<and> \<not> check_masses vs (vs[k := x]))"
proof (intro conjI impI)
  show first: "\<And>ms i. mismatch_logged vs ms = Some i \<longleftrightarrow>
      i < length vs \<and> i < length ms \<and> vs ! i \<noteq> ms ! i \<and> (\<forall>j < i. vs ! j = ms ! j)"
    using check_masses_loop_Some [of 0 vs _ _] by (simp add: mismatch_logged_def)
  show "check_masses vs ms \<longleftrightarrow> mismatch_logged vs ms = None"
    by (simp add: check_masses_def split: option.splits)
  assume k: "k < length vs \<and> x \<noteq> vs ! k"
  then show at_k: "mismatch_logged vs (vs[k := x]) = Some k"
    by (auto simp: first)
  then show "\<not> check_masses vs (vs[k := x])"
    by (simp add: check_masses_def)
qed

theorem check_masses_first_mismatch_witness:
  "mismatch_logged [12, 1, 16 :: real] ([12, 1, 16][1 := 2]) = Some 1
   \<and> \<not> check_masses [12, 1, 16 :: real] ([12, 1, 16][1 := 2])"
  using check_masses_first_mismatch [of "[12, 1, 16 :: real]" "[]" 0 1 2]
  by simp

text \<open>
  C9. Only the common prefix of the two sequences is compared: when one sequence is a
  proper prefix of the other, \<open>check_masses\<close> returns \<open>True\<close>, whichever of the two is
  the longer.
\<close>

theorem check_masses_proper_prefix:
  "strict_prefix vs ms \<or> strict_prefix ms vs \<Longrightarrow> check_masses vs ms"
  using check_masses_loop_prefix [of vs ms 0]
  by (auto simp: check_masses_def mismatch_logged_def strict_prefix_def)

theorem check_masses_proper_prefix_witness:
  "strict_prefix [12, 1 :: real] [12, 1, 16] \<and> check_masses [12, 1 :: real] [12, 1, 16]
   \<and> check_masses [12, 1, 16] [12, 1 :: real]"
proof -
  have p: "strict_prefix [12, 1 :: real] [12, 1, 16]"
    by (simp add: strict_prefix_def)
  from p check_masses_proper_prefix [of "[12, 1 :: real]" "[12, 1, 16]"]
       check_masses_proper_prefix [of "[12, 1, 16]" "[12, 1 :: real]"]
  show ?thesis by blast
qed


section \<open>Facts about the replay\<close>

text \<open>When no overflow occurs the wrapped difference of two steps is their difference.\<close>

lemma sint_diff_in_range:
  fixes a b :: int64
  assumes "- (2 ^ 63) \<le> sint a - sint b" and "sint a - sint b < 2 ^ 63"
  shows "sint (a - b) = sint a - sint b"
  using assms by (simp add: sint_word_diff signed_take_bit_int_eq_self)

lemma sint_diff_nonneg:
  fixes a b :: int64
  assumes "0 \<le> sint a" and "0 \<le> sint b"
  shows "sint (a - b) = sint a - sint b"
proof (rule sint_diff_in_range)
  have "sint a < 2 ^ 63" "sint b < 2 ^ 63"
    using sint_lt [of a] sint_lt [of b] by simp_all
  with assms show "- (2 ^ 63) \<le> sint a - sint b" "sint a - sint b < 2 ^ 63"
    by simp_all
qed

text \<open>What a run of the \<open>try\<close> block that returns has established.\<close>

lemma is_run_valid_try_Inr:
  assumes "is_run_valid_try np c eng d p se = Inr (ce, me)"
  shows "ce = check_energies eng \<and> me = miner_energies_of c d p"
  using assms
  by (auto simp: is_run_valid_try_def Let_def split: if_splits option.splits sum.splits)

lemma is_run_valid_cases:
  "is_run_valid np c eng d p = Inr (v, ce, me, r) \<Longrightarrow>
     (v \<and> ce = check_energies eng \<and> me = miner_energies_of c d p \<and> r = ''valid'')
     \<or> (\<not> v \<and> ce = [] \<and> me = [])"
  by (auto simp: is_run_valid_def split: option.splits sum.splits
      dest!: is_run_valid_try_Inr)

section \<open>The example runs, evaluated\<close>

lemmas example_defs =
  example_constants_def honest_data_def honest_engine_def honest_prepared_def gap_data_def
  steep_engine_def frozen_engine_def failing_engine_def
  late_checkpoint_data_def early_checkpoint_data_def wrapped_lag_data_def

lemma exact_fields:
  "np_float exact_numpy n = Finite (of_int n)"
  "np_subtract exact_numpy = ext_sub" "np_divide exact_numpy = ext_div"
  "np_multiply exact_numpy = ext_mul" "np_absolute exact_numpy = ext_abs"
  "np_less_equal exact_numpy = ext_le" "np_greater exact_numpy = ext_gt"
  "np_diff exact_numpy = ext_diff" "np_mean exact_numpy = ext_mean"
  "np_median exact_numpy = ext_median" "np_unique exact_numpy = ext_unique"
  by (simp_all add: exact_numpy_def)

lemma example_thresholds:
  "ANOMALY_THRESHOLD example_constants = Finite 5"
  "XML_CHECKPOINT_THRESHOLD example_constants = Finite 5"
  "MIN_SIMULATION_STEPS example_constants = 50"
  "MIN_LOGGING_ENTRIES example_constants = 5"
  "MAX_SIMULATION_STEPS_FOR_EVALUATION example_constants = 5000"
  by (simp_all add: example_constants_def)

lemma example_exts:
  "md_outputs_exts [(''md_0_1.cpt'', ''checkpoint''), (''md_0_1.log'', ''log'')] ''cpt''
     = Some ''md_0_1.cpt''"
  "md_outputs_exts [(''md_0_1.cpt'', ''checkpoint''), (''md_0_1.log'', ''log'')] ''log''
     = Some ''md_0_1.log''"
  by (simp_all add: md_outputs_exts_def file_ext_def)

lemma honest_masses: "check_masses [12, 1, 16 :: real] [12, 1, 16]"
  by (simp add: check_masses_def mismatch_logged_def)

lemma honest_fields:
  "md_output honest_data = [(''md_0_1.cpt'', ''checkpoint''), (''md_0_1.log'', ''log'')]"
  "save_files honest_data = None" "load_cpt honest_data = Inr 100"
  "read_log honest_data = None" "load_old_cpt honest_data = None"
  "load_masses honest_data = None" "validator_masses honest_data = [12, 1, 16]"
  "log_file honest_data
     = [(100, Finite (- 1000)), (110, Finite (- 1001)), (120, Finite (- 1002)),
        (130, Finite (- 1003)), (140, Finite (- 1004)), (150, Finite (- 1005))]"
  by (simp_all add: honest_data_def)

lemma gap_fields:
  "md_output gap_data = [(''md_0_1.cpt'', ''checkpoint''), (''md_0_1.log'', ''log'')]"
  "save_files gap_data = None" "load_cpt gap_data = Inr 100"
  "read_log gap_data = None" "load_old_cpt gap_data = None"
  "load_masses gap_data = None" "validator_masses gap_data = [12, 1, 16]"
  "log_file gap_data
     = [(0, Finite (- 990)), (10, Finite (- 995)), (100, Finite (- 1000)),
        (110, Finite (- 1001)), (120, Finite (- 1002)), (130, Finite (- 1003)),
        (140, Finite (- 1004)), (150, Finite (- 1005))]"
  by (simp_all add: gap_data_def honest_data_def)

lemma late_fields:
  "md_output late_checkpoint_data = [(''md_0_1.cpt'', ''checkpoint''), (''md_0_1.log'', ''log'')]"
  "save_files late_checkpoint_data = None" "read_log late_checkpoint_data = None"
  "log_file late_checkpoint_data
     = [(960, Finite (- 1000)), (970, Finite (- 1001)), (980, Finite (- 1002)),
        (990, Finite (- 1003)), (1000, Finite (- 1004))]"
  "load_cpt late_checkpoint_data = Inr 980" "load_old_cpt late_checkpoint_data = None"
  "md_output early_checkpoint_data = [(''md_0_1.cpt'', ''checkpoint''), (''md_0_1.log'', ''log'')]"
  "save_files early_checkpoint_data = None" "read_log early_checkpoint_data = None"
  "log_file early_checkpoint_data
     = [(960, Finite (- 1000)), (970, Finite (- 1001)), (980, Finite (- 1002)),
        (990, Finite (- 1003)), (1000, Finite (- 1004))]"
  "load_cpt early_checkpoint_data = Inr 900" "load_old_cpt early_checkpoint_data = None"
  by (simp_all add: late_checkpoint_data_def early_checkpoint_data_def honest_data_def)

lemma wrapped_fields:
  "md_output wrapped_lag_data = [(''md_0_1.cpt'', ''checkpoint''), (''md_0_1.log'', ''log'')]"
  "save_files wrapped_lag_data = None" "read_log wrapped_lag_data = None"
  "log_file wrapped_lag_data
     = [(0, Finite (- 1000)), (10, Finite (- 1001)), (20, Finite (- 1002)),
        (30, Finite (- 1003)), (- 9223372036854775808, Finite (- 1004))]"
  "load_cpt wrapped_lag_data = Inr 980" "load_old_cpt wrapped_lag_data = None"
  by (simp_all add: wrapped_lag_data_def honest_data_def)

lemma honest_engine_fields:
  "construct_intake honest_engine = None" "save_state honest_engine = None"
  "miner_masses honest_engine = [12, 1, 16]" "construct_state honest_engine = None"
  "state_energy honest_engine = (\<lambda>k. Finite (- 1001 - real k))"
  "construct_cpt honest_engine = None" "check_energies honest_engine = falling_energies"
  "save_pdb honest_engine = None"
  by (simp_all add: honest_engine_def)

lemma frozen_fields:
  "construct_intake frozen_engine = None" "save_state frozen_engine = None"
  "miner_masses frozen_engine = [12, 1, 16]" "construct_state frozen_engine = None"
  "state_energy frozen_engine = (\<lambda>k. Finite (- 1001 - real k))"
  "construct_cpt frozen_engine = None" "check_energies frozen_engine = constant_energies"
  "save_pdb frozen_engine = None"
  by (simp_all add: frozen_engine_def honest_engine_def)

lemma steep_fields:
  "construct_intake steep_engine = None" "save_state steep_engine = None"
  "miner_masses steep_engine = [12, 1, 16]" "construct_state steep_engine = None"
  "state_energy steep_engine = (\<lambda>k. Finite (100 * real k))"
  "construct_cpt steep_engine = None" "check_energies steep_engine = falling_energies"
  "save_pdb steep_engine = None"
  by (simp_all add: steep_engine_def honest_engine_def)

lemma failing_fields:
  "construct_intake failing_engine = None" "save_state failing_engine = None"
  "miner_masses failing_engine = [12, 1, 16]" "construct_state failing_engine = Some no_device"
  by (simp_all add: failing_engine_def honest_engine_def)

lemma prepared_fields:
  "log_step honest_prepared = 150" "cpt_step honest_prepared = 100"
  by (simp_all add: honest_prepared_def)

lemma honest_intake:
  "process_md_output example_constants honest_engine honest_data = Intake_true honest_prepared"
  by (simp add: process_md_output_def process_md_output_try_def save_attributes_def
      honest_fields honest_engine_fields example_exts example_thresholds honest_prepared_def)

lemma gap_intake:
  "process_md_output example_constants honest_engine gap_data = Intake_true honest_prepared"
  by (simp add: process_md_output_def process_md_output_try_def save_attributes_def
      gap_fields honest_engine_fields example_exts example_thresholds honest_prepared_def)

lemma frozen_intake:
  "process_md_output example_constants frozen_engine honest_data = Intake_true honest_prepared"
  by (simp add: process_md_output_def process_md_output_try_def save_attributes_def
      honest_fields frozen_fields example_exts example_thresholds honest_prepared_def)

lemma failing_intake:
  "process_md_output example_constants failing_engine honest_data = Intake_true honest_prepared"
  by (simp add: process_md_output_def process_md_output_try_def save_attributes_def
      honest_fields failing_fields example_exts example_thresholds honest_prepared_def)

lemma example_steps:
  "steps_to_run example_constants honest_prepared = 50"
  "max_step example_constants honest_prepared = 150"
  by (simp_all add: steps_to_run_def max_step_def prepared_fields example_thresholds)

lemma honest_state_replay:
  "state_replay example_constants honest_engine honest_prepared = falling_energies"
  "state_replay example_constants frozen_engine honest_prepared = falling_energies"
  by (simp_all add: state_replay_def example_steps honest_engine_fields frozen_fields
      falling_energies_def upt_rec)

lemma steep_state_replay:
  "state_replay example_constants steep_engine honest_prepared = rising_energies"
  by (simp add: state_replay_def example_steps steep_fields rising_energies_def upt_rec)

lemma honest_miner_energies:
  "miner_energies_of example_constants honest_data honest_prepared = falling_energies"
  "miner_energies_of example_constants gap_data honest_prepared = falling_energies"
  by (simp_all add: miner_energies_of_def example_steps prepared_fields honest_fields
      gap_fields falling_energies_def)

lemma gradient_falling: "check_gradient exact_numpy falling_energies"
  by (simp add: check_gradient_def first_n_def WINDOW_def GRADIENT_THRESHOLD_def
      exact_fields ext_mean_def ext_le_def falling_energies_def)

lemma gradient_rising: "\<not> check_gradient exact_numpy rising_energies"
  by (simp add: check_gradient_def first_n_def WINDOW_def GRADIENT_THRESHOLD_def
      exact_fields ext_mean_def ext_le_def rising_energies_def)

lemma unique_constant: "ext_unique constant_energies = [Finite (- 1000)]"
  by (simp add: ext_unique_def constant_energies_def)

lemma unique_falling: "length (ext_unique falling_energies) = 5"
  by (simp add: ext_unique_def falling_energies_def)

lemma median_falling: "ext_median falling_energies = Finite (- 1003)"
  by (simp add: ext_median_def falling_energies_def)

lemma last_falling: "last_n 10 falling_energies = falling_energies"
  by (simp add: last_n_def falling_energies_def)

lemma compare_same:
  "compare_state_to_cpt exact_numpy example_constants falling_energies falling_energies"
proof -
  have "first_n WINDOW falling_energies = falling_energies"
    by (simp add: first_n_def WINDOW_def falling_energies_def)
  then show ?thesis
    by (simp add: compare_state_to_cpt_def Let_def exact_fields example_thresholds
        ext_gt_def median_falling)
qed

lemma anomaly_none:
  "percent_diff_array exact_numpy falling_energies falling_energies
   = Inr [Finite 0, Finite 0, Finite 0, Finite 0, Finite 0]"
  by (simp add: percent_diff_array_def np_broadcast_def percent_diff_at_def exact_fields
      falling_energies_def)

lemma median_zero:
  "ext_median [Finite 0, Finite 0, Finite 0, Finite 0, Finite 0] = Finite 0"
  by (simp add: ext_median_def)

lemma honest_try:
  "is_run_valid_try exact_numpy example_constants honest_engine honest_data honest_prepared
     falling_energies = Inr (falling_energies, falling_energies)"
  "is_run_valid_try exact_numpy example_constants honest_engine gap_data honest_prepared
     falling_energies = Inr (falling_energies, falling_energies)"
  by (simp_all add: is_run_valid_try_def Let_def honest_engine_fields honest_miner_energies
      gradient_falling compare_same anomaly_none median_zero ext_gt_def example_thresholds
      exact_fields unique_falling)

lemma honest_valid:
  "is_run_valid exact_numpy example_constants honest_engine honest_data honest_prepared
   = Inr (True, falling_energies, falling_energies, ''valid'')"
  "is_run_valid exact_numpy example_constants honest_engine gap_data honest_prepared
   = Inr (True, falling_energies, falling_energies, ''valid'')"
  by (simp_all add: is_run_valid_def honest_engine_fields honest_state_replay honest_try)

lemma steep_try:
  "is_run_valid_try exact_numpy example_constants steep_engine honest_data honest_prepared
     rising_energies = Inl (Raise_str ''state-gradient'')"
  by (simp add: is_run_valid_try_def gradient_rising)

lemma frozen_try:
  "is_run_valid_try exact_numpy example_constants frozen_engine honest_data honest_prepared
     falling_energies = Inl (Raise_str ''reprod-energies-identical'')"
  by (simp add: is_run_valid_try_def Let_def gradient_falling frozen_fields exact_fields
      unique_constant)

lemma steep_rejected:
  "is_run_valid exact_numpy example_constants steep_engine honest_data honest_prepared
     = Inr (False, [], [], ''exceptions must derive from BaseException'')"
  by (simp add: is_run_valid_def steep_state_replay steep_try steep_fields str_exc_def)

lemma frozen_rejected:
  "is_run_valid exact_numpy example_constants frozen_engine honest_data honest_prepared
     = Inr (False, [], [], ''exceptions must derive from BaseException'')"
  by (simp add: is_run_valid_def honest_state_replay frozen_try frozen_fields str_exc_def)

lemma failing_raises:
  "is_run_valid exact_numpy example_constants failing_engine honest_data honest_prepared
     = Inl no_device"
  by (simp add: is_run_valid_def failing_fields)

lemma honest_passes: "passes_every_stage exact_numpy example_constants honest_engine honest_data"
  by (simp add: passes_every_stage_def honest_intake honest_valid honest_engine_fields
      honest_fields honest_masses)

lemma gap_passes: "passes_every_stage exact_numpy example_constants honest_engine gap_data"
  by (simp add: passes_every_stage_def gap_intake honest_valid honest_engine_fields
      gap_fields honest_masses)

lemma frozen_is_rejected:
  "rejected_by_a_stage exact_numpy example_constants frozen_engine honest_data"
  "\<not> passes_every_stage exact_numpy example_constants frozen_engine honest_data"
  by (simp_all add: rejected_by_a_stage_def passes_every_stage_def frozen_intake
      frozen_rejected frozen_fields honest_fields honest_masses)

lemma failing_neither:
  "\<not> rejected_by_a_stage exact_numpy example_constants failing_engine honest_data"
  "\<not> passes_every_stage exact_numpy example_constants failing_engine honest_data"
  by (simp_all add: rejected_by_a_stage_def passes_every_stage_def failing_intake
      failing_raises failing_fields honest_fields honest_masses)

section \<open>The score\<close>

lemma passes_evaluate:
  assumes "passes_every_stage np c eng d"
  shows "md_evaluate np c eng d = Inr (np_median np (last_n 10 (check_energies eng)))"
proof -
  from assms obtain p where p: "process_md_output c eng d = Intake_true p"
    by (auto simp: passes_every_stage_def split: intake.splits)
  with assms have masses: "load_masses d = None"
      "check_masses (validator_masses d) (miner_masses eng)"
    and rows: "2 \<le> length (log_file d)"
    and stride: "sint (fst (log_file d ! 1) - fst (log_file d ! 0)) \<le> 10"
    by (auto simp: passes_every_stage_def)
  from assms p obtain ce me r where v: "is_run_valid np c eng d p = Inr (True, ce, me, r)"
    by (auto simp: passes_every_stage_def split: sum.splits)
  from is_run_valid_cases [OF v] have ce: "ce = check_energies eng"
    by auto
  with p masses rows stride v show ?thesis
    by (simp add: md_evaluate_def)
qed

lemma rejected_evaluate:
  assumes "rejected_by_a_stage np c eng d"
  shows "md_evaluate np c eng d = Inr (np_float np 0)"
  using assms
  by (auto simp: md_evaluate_def rejected_by_a_stage_def
      split: intake.splits sum.splits if_splits)

text \<open>
  In every other case no score is returned: an exception leaves \<open>_evaluate\<close>.
\<close>

lemma neither_evaluate:
  assumes "\<not> passes_every_stage np c eng d" and "\<not> rejected_by_a_stage np c eng d"
  shows "\<exists>e. md_evaluate np c eng d = Inl e"
  using assms
  by (auto simp: md_evaluate_def rejected_by_a_stage_def passes_every_stage_def
      split: intake.splits sum.splits if_splits option.splits)

text \<open>
  C1, as the specification states it, fails: the score of a submission that passes every
  stage is the median of the replayed energies, whatever its sign. The honest run passes
  every stage and scores \<open>- 1003\<close>.
\<close>

theorem evaluate_negative_score:
  "passes_every_stage exact_numpy example_constants honest_engine honest_data
   \<and> md_evaluate exact_numpy example_constants honest_engine honest_data
       = Inr (Finite (- 1003))
   \<and> \<not> (0 :: real) \<le> - 1003"
  using passes_evaluate [OF honest_passes] honest_passes
  by (simp add: honest_engine_fields exact_fields last_falling median_falling)

text \<open>
  C1, amended. A submission that passes every stage is scored with the median, as numpy
  computes it, of the last ten samples of the energies that the verifier's own checkpoint
  replay produced (not of the worker's log); the score has no lower bound. A submission
  that a stage rejects is scored exactly \<open>0.0\<close>.
\<close>

theorem evaluate_score:
  "(passes_every_stage np c eng d \<longrightarrow>
      md_evaluate np c eng d = Inr (np_median np (last_n 10 (check_energies eng))))
   \<and> (rejected_by_a_stage np c eng d \<longrightarrow> md_evaluate np c eng d = Inr (np_float np 0))"
  using passes_evaluate rejected_evaluate by blast

theorem evaluate_score_witness:
  "passes_every_stage exact_numpy example_constants honest_engine honest_data
   \<and> md_evaluate exact_numpy example_constants honest_engine honest_data
       = Inr (np_median exact_numpy (last_n 10 (check_energies honest_engine)))
   \<and> rejected_by_a_stage exact_numpy example_constants frozen_engine honest_data
   \<and> md_evaluate exact_numpy example_constants frozen_engine honest_data
       = Inr (np_float exact_numpy 0)"
  using evaluate_score [of exact_numpy example_constants honest_engine honest_data]
    evaluate_score [of exact_numpy example_constants frozen_engine honest_data]
    honest_passes frozen_is_rejected
  by blast

section \<open>Reject reasons\<close>

text \<open>
  C2. The state-gradient stage rejects the run with the steep state replay, and the
  degenerate-trajectory stage the run with the frozen checkpoint replay: the statements
  executed are \<open>raise "state-gradient"\<close> and \<open>raise "reprod-energies-identical"\<close>. In both
  outcomes the reason returned is the text of the \<open>TypeError\<close> that raising a string
  causes, not the name of the stage.
\<close>

theorem reject_reason_is_type_error_text:
  "is_run_valid_try exact_numpy example_constants steep_engine honest_data honest_prepared
     (state_replay example_constants steep_engine honest_prepared)
     = Inl (Raise_str ''state-gradient'')
   \<and> is_run_valid exact_numpy example_constants steep_engine honest_data honest_prepared
     = Inr (False, [], [], ''exceptions must derive from BaseException'')
   \<and> is_run_valid_try exact_numpy example_constants frozen_engine honest_data honest_prepared
     (state_replay example_constants frozen_engine honest_prepared)
     = Inl (Raise_str ''reprod-energies-identical'')
   \<and> is_run_valid exact_numpy example_constants frozen_engine honest_data honest_prepared
     = Inr (False, [], [], ''exceptions must derive from BaseException'')"
  by (simp add: steep_state_replay steep_try honest_state_replay frozen_try
      steep_rejected frozen_rejected)

text \<open>
  C3. The simulation for the state replay is rebuilt before the \<open>try\<close> block is entered.
  When that construction raises, the exception leaves \<open>is_run_valid\<close> and \<open>_evaluate\<close>:
  there is no outcome and no score.
\<close>

theorem engine_error_leaves_evaluate:
  "is_run_valid exact_numpy example_constants failing_engine honest_data honest_prepared
     = Inl no_device
   \<and> md_evaluate exact_numpy example_constants failing_engine honest_data = Inl no_device"
  by (simp add: md_evaluate_def failing_intake failing_raises failing_fields honest_fields
      honest_masses)

text \<open>
  C4. In the run with the frozen checkpoint replay the state replay is built and passes
  its gradient check, the checkpoint replay is built, and every energy of the checkpoint
  replay is \<open>- 1000\<close>. The statement executed is \<open>raise "reprod-energies-identical"\<close>.
  The outcome returned is invalid, but its reason is the text of the \<open>TypeError\<close> that
  raising a string causes: the outcome does not say that the replay was constant.
\<close>

theorem constant_replay_outcome:
  "construct_state frozen_engine = None
   \<and> check_gradient exact_numpy (state_replay example_constants frozen_engine honest_prepared)
   \<and> construct_cpt frozen_engine = None
   \<and> set (check_energies frozen_engine) = {Finite (- 1000)}
   \<and> is_run_valid_try exact_numpy example_constants frozen_engine honest_data honest_prepared
       (state_replay example_constants frozen_engine honest_prepared)
     = Inl (Raise_str ''reprod-energies-identical'')
   \<and> is_run_valid exact_numpy example_constants frozen_engine honest_data honest_prepared
     = Inr (False, [], [], ''exceptions must derive from BaseException'')
   \<and> md_evaluate exact_numpy example_constants frozen_engine honest_data = Inr (Finite 0)"
  using rejected_evaluate [OF frozen_is_rejected(1)]
  by (simp add: frozen_fields honest_state_replay gradient_falling frozen_try frozen_rejected
      constant_energies_def exact_fields)

text \<open>
  C10. An outcome that \<open>is_run_valid\<close> returns as invalid carries two empty trajectories.
\<close>

theorem rejected_outcome_has_no_trajectories:
  "is_run_valid np c eng d p = Inr (is_valid, checked_energies, miner_energies, result) \<Longrightarrow>
     \<not> is_valid \<Longrightarrow> checked_energies = [] \<and> miner_energies = []"
  by (auto simp: is_run_valid_def split: option.splits sum.splits)

theorem rejected_outcome_has_no_trajectories_witness:
  "is_run_valid exact_numpy example_constants frozen_engine honest_data honest_prepared
     = Inr (False, [], [], ''exceptions must derive from BaseException'')
   \<and> ([] :: npfloat list) = [] \<and> ([] :: npfloat list) = []"
  using rejected_outcome_has_no_trajectories [OF frozen_rejected] frozen_rejected
  by simp

section \<open>Log resolution\<close>

text \<open>
  C5. Only the first two rows of the log are compared (line 289), although the comment
  above that line asks for a logging resolution of 10 or better. A log that jumps by 90
  steps between its second and third row passes every stage and is scored.
\<close>

theorem later_stride_not_checked:
  "sint (fst (log_file gap_data ! 2) - fst (log_file gap_data ! 1)) = 90
   \<and> passes_every_stage exact_numpy example_constants honest_engine gap_data
   \<and> md_evaluate exact_numpy example_constants honest_engine gap_data = Inr (Finite (- 1003))"
  using passes_evaluate [OF gap_passes] gap_passes
  by (simp add: honest_engine_fields exact_fields last_falling median_falling gap_fields)

text \<open>What the resolution check does decide: the first two rows.\<close>

lemma first_stride_gate:
  assumes "process_md_output c eng d = Intake_true p" and "load_masses d = None"
    and "check_masses (validator_masses d) (miner_masses eng)"
    and "2 \<le> length (log_file d)"
    and "10 < sint (fst (log_file d ! 1) - fst (log_file d ! 0))"
  shows "md_evaluate np c eng d = Inr (np_float np 0)"
  using assms by (simp add: md_evaluate_def)

section \<open>The checkpoint-freshness gate\<close>

text \<open>
  For a submission that reaches the gate (both files present and saved, the simulation
  built, the checkpoint loaded, the log read, enough log rows), with \<open>lag\<close> the wrapped
  difference of the last logged step and the checkpoint's step: a lag of at least
  \<open>MIN_SIMULATION_STEPS\<close> passes with that checkpoint; a smaller lag passes with the old
  checkpoint when it exists and its lag reaches the same threshold; and the submission is
  rejected for insufficient progress exactly when the lag is below the threshold and
  there is no old checkpoint or the old checkpoint's lag is below the threshold too.
\<close>

lemma checkpoint_freshness_gate_wrapping:
  assumes "md_output d \<noteq> []"
    and "md_outputs_exts (md_output d) ''cpt'' \<noteq> None"
    and "md_outputs_exts (md_output d) ''log'' \<noteq> None"
    and "save_files d = None"
    and "construct_intake eng = None"
    and "load_cpt d = Inr checkpoint_step"
    and "read_log d = None"
    and "log_file d \<noteq> []"
    and "MIN_LOGGING_ENTRIES c \<le> int (length (log_file d))"
  shows
    "(MIN_SIMULATION_STEPS c \<le> sint (fst (last (log_file d)) - checkpoint_step) \<longrightarrow>
        process_md_output_try c eng d =
          save_attributes eng
            \<lparr>log_step = fst (last (log_file d)), cpt_step = checkpoint_step,
             used_old_checkpoint = False\<rparr>)
     \<and> (sint (fst (last (log_file d)) - checkpoint_step) < MIN_SIMULATION_STEPS c
          \<and> load_old_cpt d = Some (Inr old_step)
          \<and> MIN_SIMULATION_STEPS c \<le> sint (fst (last (log_file d)) - old_step) \<longrightarrow>
        process_md_output_try c eng d =
          save_attributes eng
            \<lparr>log_step = fst (last (log_file d)), cpt_step = old_step,
             used_old_checkpoint = True\<rparr>)
     \<and> ((\<exists>logged. process_md_output c eng d = Intake_false logged
                   \<and> insufficient_progress logged)
          \<longleftrightarrow>
        sint (fst (last (log_file d)) - checkpoint_step) < MIN_SIMULATION_STEPS c
          \<and> (load_old_cpt d = None
             \<or> (\<exists>s. load_old_cpt d = Some (Inr s)
                    \<and> sint (fst (last (log_file d)) - s) < MIN_SIMULATION_STEPS c)))"
proof -
  have run: "process_md_output c eng d =
      (case process_md_output_try c eng d of
         Inl logged \<Rightarrow> Intake_false logged | Inr p \<Rightarrow> Intake_true p)"
    using assms(1-4) by (auto simp: process_md_output_def)
  show ?thesis
    unfolding run using assms(5-9)
    by (auto simp: process_md_output_try_def save_attributes_def Let_def
        split: option.splits sum.splits)
qed

text \<open>
  When the steps involved are not negative, no difference wraps around and the lag is the
  number of steps between the checkpoint and the end of the log.
\<close>

lemma checkpoint_freshness_gate_in_range:
  assumes "md_output d \<noteq> []"
    and "md_outputs_exts (md_output d) ''cpt'' \<noteq> None"
    and "md_outputs_exts (md_output d) ''log'' \<noteq> None"
    and "save_files d = None"
    and "construct_intake eng = None"
    and "load_cpt d = Inr checkpoint_step"
    and "read_log d = None"
    and "log_file d \<noteq> []"
    and "MIN_LOGGING_ENTRIES c \<le> int (length (log_file d))"
    and "0 \<le> sint (fst (last (log_file d)))"
    and "0 \<le> sint checkpoint_step"
    and "\<forall>s. load_old_cpt d = Some (Inr s) \<longrightarrow> 0 \<le> sint s"
  shows
    "(\<exists>logged. process_md_output c eng d = Intake_false logged \<and> insufficient_progress logged)
       \<longleftrightarrow>
     sint (fst (last (log_file d))) - sint checkpoint_step < MIN_SIMULATION_STEPS c
       \<and> (load_old_cpt d = None
          \<or> (\<exists>s. load_old_cpt d = Some (Inr s)
                 \<and> sint (fst (last (log_file d))) - sint s < MIN_SIMULATION_STEPS c))"
proof -
  have lag: "sint (fst (last (log_file d)) - checkpoint_step)
             = sint (fst (last (log_file d))) - sint checkpoint_step"
    using assms(10,11) by (rule sint_diff_nonneg)
  have old: "sint (fst (last (log_file d)) - s) = sint (fst (last (log_file d))) - sint s"
    if "load_old_cpt d = Some (Inr s)" for s
    using assms(10,12) that by (intro sint_diff_nonneg) auto
  from checkpoint_freshness_gate_wrapping [OF assms(1-9)]
  have "(\<exists>logged. process_md_output c eng d = Intake_false logged
                   \<and> insufficient_progress logged)
          \<longleftrightarrow>
        sint (fst (last (log_file d)) - checkpoint_step) < MIN_SIMULATION_STEPS c
          \<and> (load_old_cpt d = None
             \<or> (\<exists>s. load_old_cpt d = Some (Inr s)
                    \<and> sint (fst (last (log_file d)) - s) < MIN_SIMULATION_STEPS c))"
    by blast
  then show ?thesis
    unfolding lag using old by metis
qed

text \<open>
  The two scenarios of the specification: with the log ending at step 1000 and a lag of
  at least 50 required, a checkpoint at step 980 with no older one is rejected for
  insufficient progress, and a checkpoint at step 900 passes.
\<close>

lemma freshness_scenarios:
  "process_md_output example_constants honest_engine late_checkpoint_data
     = Intake_false (Validation_warning No_old_checkpoint)"
  "process_md_output example_constants honest_engine early_checkpoint_data
     = Intake_true \<lparr>log_step = 1000, cpt_step = 900, used_old_checkpoint = False\<rparr>"
  by (simp_all add: process_md_output_def process_md_output_try_def save_attributes_def
      late_fields honest_engine_fields example_exts example_thresholds)

text \<open>
  C6. The lag is computed in 64-bit arithmetic and wraps around. For the log that ends
  at step \<open>- 2 ^ 63\<close>, with the checkpoint at step 980 and no older checkpoint, the last
  logged step is far behind the checkpoint, yet the lag the code computes is
  \<open>2 ^ 63 - 980\<close>: the gate lets the submission through and \<open>process_md_output\<close> returns
  \<open>True\<close>.
\<close>

theorem wrapped_lag_passes_gate:
  "sint (fst (last (log_file wrapped_lag_data))) - sint (980 :: int64)
     < MIN_SIMULATION_STEPS example_constants
   \<and> load_cpt wrapped_lag_data = Inr 980
   \<and> load_old_cpt wrapped_lag_data = None
   \<and> sint (fst (last (log_file wrapped_lag_data)) - 980) = 9223372036854774828
   \<and> process_md_output example_constants honest_engine wrapped_lag_data
     = Intake_true \<lparr>log_step = - 9223372036854775808, cpt_step = 980,
                    used_old_checkpoint = False\<rparr>"
  by (simp add: process_md_output_def process_md_output_try_def save_attributes_def
      wrapped_fields honest_engine_fields example_exts example_thresholds)

section \<open>The effect of \<open>create_simulation\<close> on the configuration\<close>

text \<open>
  No path through the device selection returns a device index, so every call ends in an
  exception, at the latest at line 164, and the loop of lines 187-189 is never reached.
\<close>

lemma select_device_raises: "select_device idle \<noteq> Inr deviceIndex"
  by (simp add: select_device_def Let_def)

lemma create_simulation_raises: "\<exists>e. fst (create_simulation env cfg seed) = Inl e"
  by (auto simp: create_simulation_def select_device_raises split: sum.splits option.splits)



text \<open>
  What lines 187-189 would do to a configuration: values of other types become strings.
\<close>

lemma stringify_config_effect:
  "stringify_config cfg k
     = map_option (\<lambda>v. case v of VOther s \<Rightarrow> VStr s | _ \<Rightarrow> v) (cfg k)"
proof (cases "cfg k")
  case None
  then show ?thesis by (simp add: stringify_config_def)
next
  case (Some v)
  then show ?thesis by (cases v) (simp_all add: stringify_config_def)
qed







end
